theory Spec2Isabelle
  imports Main "HOL-Library.Word"
begin

section \<open>The JNI bridge of WhisperCore (lib/src/main/cpp/jni.c)\<close>

text \<open>
  The file is glue between a managed runtime and a native engine, so almost everything it
  does is a call into code it does not own: the JNI function table, the JavaVM, libc's
  allocator, the asset manager and the whisper engine. The embedding keeps the C control
  flow of every function and makes the outside explicit:
  \<^item> every outside call is appended to a trace, together with the value it returned;
  \<^item> what the outside answers is read from a \<open>runtime\<close> record of answer functions, each of
    which sees the whole trace so far (so two calls of the same function may differ);
  \<^item> the input-stream context structs live in an explicit store, so that a null, a live and
    a dangling pointer are three different things;
  \<^item> undefined behaviour on a pointer (null dereference, use of a freed block, a second
    \<open>free\<close>) is a \<open>fault\<close> value that stops the function.
  \<open>size_t\<close> is 64 bits wide (the arm64-v8a ABI); \<open>jint\<close> is the 32-bit signed JNI integer,
  read with \<open>sint\<close>. The bytes copied into the output buffer are not modelled, only how many.
\<close>

subsection \<open>Values\<close>

type_synonym ptr = "nat option"
type_synonym jint = "32 word"
type_synonym size_t = "64 word"

abbreviation NULL :: ptr where
  "NULL \<equiv> None"

text \<open>Constants of \<open>jni.h\<close>.\<close>

definition JNI_OK :: jint where
  "JNI_OK = 0"

definition JNI_EDETACHED :: jint where
  "JNI_EDETACHED = - 2"

definition JNI_EVERSION :: jint where
  "JNI_EVERSION = - 3"

definition JNI_ABORT :: jint where
  "JNI_ABORT = 2"

datatype prio = INFO | WARN | ERROR

datatype jvalue = L ptr | I jint

text \<open>The functions of this file whose address is stored in a loader.\<close>

datatype read_fn = fn_inputStreamRead | fn_asset_read
datatype eof_fn = fn_inputStreamEof | fn_asset_is_eof
datatype close_fn = fn_inputStreamClose | fn_asset_close

record whisper_model_loader =
  l_context :: ptr
  l_read :: "read_fn option"
  l_eof :: "eof_fn option"
  l_close :: "close_fn option"

text \<open>The fields of \<open>whisper_full_params\<close> that \<open>fullTranscribe\<close> assigns.\<close>

record whisper_full_params =
  print_realtime :: bool
  print_progress :: bool
  print_timestamps :: bool
  print_special :: bool
  translate :: bool
  language :: string
  n_threads :: jint
  offset_ms :: "32 word"
  no_context :: bool
  single_segment :: bool

record input_stream_context =
  offset :: size_t
  env :: ptr
  input_stream :: ptr
  mid_available :: ptr
  mid_read :: ptr

subsection \<open>Log messages\<close>

text \<open>
  \<open>msg_n\<close> is the format string of the log call at line \<open>n\<close> of \<open>jni.c\<close>; the five
  lines of a timing report (468 to 472 and 482 to 486) are named after what they report.
\<close>

definition msg_57 :: string where
  "msg_57 = ''inputStreamRead: Failed to allocate NewByteArray for reading''"

definition msg_67 :: string where
  "msg_67 = ''inputStreamRead: Exception occurred during Java InputStream.read()''"

definition msg_81 :: string where
  "msg_81 = ''inputStreamRead: Exception during GetByteArrayRegion''"

definition msg_92 :: string where
  "msg_92 = ''inputStreamRead: EOF reached by Java InputStream.read()''"

definition msg_95 :: string where
  "msg_95 = ''inputStreamRead: Java InputStream.read() returned 0 bytes, but not EOF.''"

definition msg_113 :: string where
  "msg_113 = ''JNI: inputStreamClose called for context %p''"

definition msg_116 :: string where
  "msg_116 = ''JNI: inputStreamClose called with NULL context''"

definition msg_124 :: string where
  "msg_124 = ''JNI: inputStreamClose - g_vm is NULL. Cannot get JNIEnv.''"

definition msg_128 :: string where
  "msg_128 = ''JNI: inputStreamClose - Leaking GlobalRef for input_stream %p because g_vm is NULL.''"

definition msg_137 :: string where
  "msg_137 = ''JNI: inputStreamClose - Thread not attached, attempting to attach.''"

definition msg_139 :: string where
  "msg_139 = ''JNI: inputStreamClose - Failed to attach current thread to JVM.''"

definition msg_142 :: string where
  "msg_142 = ''JNI: inputStreamClose - Leaking GlobalRef for input_stream %p due to attach failure.''"

definition msg_149 :: string where
  "msg_149 = ''JNI: inputStreamClose - GetEnv: JNI version not supported.''"

definition msg_152 :: string where
  "msg_152 = ''JNI: inputStreamClose - Leaking GlobalRef for input_stream %p due to JNI version error.''"

definition msg_157 :: string where
  "msg_157 = ''JNI: inputStreamClose - Successfully got JNIEnv for current thread.''"

definition msg_162 :: string where
  "msg_162 = ''JNI: Deleting global ref %p for input_stream in inputStreamClose (context %p)''"

definition msg_166 :: string where
  "msg_166 = ''JNI: inputStreamClose - input_stream in context %p was already NULL''"

definition msg_169 :: string where
  "msg_169 = ''JNI: Freeing input_stream_context %p in inputStreamClose''"

definition msg_173 :: string where
  "msg_173 = ''JNI: inputStreamClose - Detaching current thread from JVM.''"

definition msg_266 :: string where
  "msg_266 = ''JNI Error: Global InputStream class/method IDs not initialized in initContextFromInputStream. ''
     @ ''This usually means JNI_OnLoad() failed or was not called correctly.''"

definition msg_275 :: string where
  "msg_275 = ''Failed to allocate memory for input_stream_context''"

definition msg_287 :: string where
  "msg_287 = ''Failed to create global ref for input_stream_param''"

definition msg_295 :: string where
  "msg_295 = ''JNI: Assigned cached method IDs to input_stream_context for instance %p.''"

definition msg_309 :: string where
  "msg_309 = ''JNI: Calling loader.eof() before whisper_init_with_params for instance %p.''"

definition msg_312 :: string where
  "msg_312 = ''JNI WARNING: loader.eof function pointer was NULL. Cannot call eof. Instance %p''"

definition msg_317 :: string where
  "msg_317 = ''JNI: [REGULAR MODE] whisper_init_with_params returned context: %p.''"

definition msg_320 :: string where
  "msg_320 = ''JNI: [REGULAR MODE] whisper_init_with_params failed for input stream using loader context %p.''"

definition msg_328 :: string where
  "msg_328 = ''JNI: [REGULAR MODE] Assuming loader.close handled cleanup for inp_ctx_ptr %p if init failed.''"

definition msg_354 :: string where
  "msg_354 = ''Loading model from asset '%s'\<newline>''"

definition msg_358 :: string where
  "msg_358 = ''Failed to open '%s'\<newline>''"

definition msg_432 :: string where
  "msg_432 = ''WhisperJNI: fullTranscribe called with: n_threads=%d, audio_length=%d, print_realtime=%d''"

definition msg_435 :: string where
  "msg_435 = ''WhisperJNI: whisper_context is NULL. Aborting fullTranscribe.''"

definition msg_443 :: string where
  "msg_443 = ''WhisperJNI: GetFloatArrayElements failed to get audio data. Aborting.''"

definition msg_449 :: string where
  "msg_449 = ''WhisperJNI: Preparing to call whisper_full C function. Context: %p''"

definition msg_460 :: string where
  "msg_460 = ''WhisperJNI: whisper_full C function returned: %d. Time taken: %.3f seconds.''"

definition msg_464 :: string where
  "msg_464 = ''WhisperJNI: whisper_full C function successfully returned: %d. Time taken: %.3f seconds.''"

definition msg_467 :: string where
  "msg_467 = ''WhisperJNI Detailed Timings:''"

definition msg_475 :: string where
  "msg_475 = ''WhisperJNI: Failed to get detailed timings from whisper_get_timings.''"

definition msg_478 :: string where
  "msg_478 = ''WhisperJNI: whisper_full C function FAILED with code: %d. Time taken: %.3f seconds.''"

definition msg_481 :: string where
  "msg_481 = ''WhisperJNI Detailed Timings (on failure):''"

definition msg_sample :: string where
  "msg_sample = ''  Sample ms: %.2f''"

definition msg_encode :: string where
  "msg_encode = ''  Encode ms: %.2f''"

definition msg_decode :: string where
  "msg_decode = ''  Decode ms: %.2f''"

definition msg_batchd :: string where
  "msg_batchd = ''  BatchD ms: %.2f''"

definition msg_prompt :: string where
  "msg_prompt = ''  Prompt ms: %.2f''"

subsection \<open>The trace of outside calls\<close>

text \<open>
  One constructor per outside function the file calls; the last argument of a constructor
  whose function returns something is the returned value.
\<close>

datatype event =
    Log prio string
  | NewByteArray jint ptr
  | CallIntMethod ptr ptr "jvalue list" jint
  | ExceptionCheck bool
  | ExceptionDescribe
  | ExceptionClear
  | DeleteLocalRef ptr
  | GetByteArrayRegion ptr jint jint
  | NewGlobalRef ptr ptr
  | DeleteGlobalRef ptr
  | GetFloatArrayElements ptr ptr
  | GetArrayLength ptr jint
  | ReleaseFloatArrayElements ptr ptr jint
  | GetEnv jint ptr
  | AttachCurrentThread jint ptr
  | DetachCurrentThread
  | Malloc ptr
  | Free ptr
  | AAssetManager_fromJava ptr ptr
  | AAssetManager_open ptr string ptr
  | AAsset_read ptr size_t jint
  | AAsset_getRemainingLength64 ptr "64 word"
  | AAsset_close ptr
  | whisper_context_default_params
  | whisper_init_with_params whisper_model_loader
  | whisper_reset_timings ptr
  | clock_gettime
  | whisper_full ptr whisper_full_params ptr jint "32 word"
  | whisper_get_timings ptr ptr

subsection \<open>State, faults and the answers of the outside\<close>

record state =
  heap :: "nat \<Rightarrow> input_stream_context option"
  next_block :: nat
  g_vm :: ptr
  g_inputStreamClass :: ptr
  g_midInputStreamAvailable :: ptr
  g_midInputStreamRead :: ptr
  pending :: bool
  trace :: "event list"

datatype fault = NullDeref | UseAfterFree | DoubleFree

type_synonym 'a prog = "state \<Rightarrow> (fault + 'a) \<times> state"

text \<open>
  What the outside answers. A JNI function that can raise answers with a flag saying
  whether it did; the flag becomes the pending exception of the environment.
  \<open>on_malloc\<close> answers \<open>None\<close> when the allocator has no memory, and otherwise the
  indeterminate contents of the new block. The engine's initializer is a program of its
  own: it may call the loader's callbacks any number of times.
\<close>

record runtime =
  on_NewByteArray :: "event list \<Rightarrow> jint \<Rightarrow> ptr \<times> bool"
  on_CallIntMethod :: "event list \<Rightarrow> ptr \<Rightarrow> ptr \<Rightarrow> jvalue list \<Rightarrow> jint \<times> bool"
  on_GetByteArrayRegion :: "event list \<Rightarrow> ptr \<Rightarrow> jint \<Rightarrow> jint \<Rightarrow> bool"
  on_NewGlobalRef :: "event list \<Rightarrow> ptr \<Rightarrow> ptr"
  on_GetFloatArrayElements :: "event list \<Rightarrow> ptr \<Rightarrow> ptr"
  on_GetArrayLength :: "event list \<Rightarrow> ptr \<Rightarrow> jint"
  on_GetEnv :: "event list \<Rightarrow> jint \<times> ptr"
  on_AttachCurrentThread :: "event list \<Rightarrow> jint \<times> ptr"
  on_malloc :: "event list \<Rightarrow> input_stream_context option"
  on_AAssetManager_fromJava :: "event list \<Rightarrow> ptr \<Rightarrow> ptr"
  on_AAssetManager_open :: "event list \<Rightarrow> ptr \<Rightarrow> string \<Rightarrow> ptr"
  on_AAsset_read :: "event list \<Rightarrow> ptr \<Rightarrow> size_t \<Rightarrow> jint"
  on_AAsset_getRemainingLength64 :: "event list \<Rightarrow> ptr \<Rightarrow> 64 word"
  on_whisper_init_with_params :: "whisper_model_loader \<Rightarrow> ptr prog"
  on_whisper_full_default_params :: whisper_full_params
  on_whisper_full :: "event list \<Rightarrow> ptr \<Rightarrow> whisper_full_params \<Rightarrow> ptr \<Rightarrow> jint \<Rightarrow> 32 word"
  on_whisper_get_timings :: "event list \<Rightarrow> ptr \<Rightarrow> ptr"

subsection \<open>Sequencing\<close>

definition ret :: "'a \<Rightarrow> 'a prog" where
  "ret x = (\<lambda>s. (Inr x, s))"

definition crash :: "fault \<Rightarrow> 'a prog" where
  "crash f = (\<lambda>s. (Inl f, s))"

definition seq :: "'a prog \<Rightarrow> ('a \<Rightarrow> 'b prog) \<Rightarrow> 'b prog" where
  "seq m k = (\<lambda>s. case m s of (Inl f, s') \<Rightarrow> (Inl f, s') | (Inr x, s') \<Rightarrow> k x s')"

fun block :: "unit prog list \<Rightarrow> unit prog" where
  "block [] = ret ()"
| "block (m # ms) = seq m (\<lambda>_. block ms)"

definition gets :: "(state \<Rightarrow> 'a) \<Rightarrow> 'a prog" where
  "gets f = (\<lambda>s. (Inr (f s), s))"

definition emit :: "event \<Rightarrow> unit prog" where
  "emit e = (\<lambda>s. (Inr (), s\<lparr>trace := trace s @ [e]\<rparr>))"

definition events_of :: "'a prog \<Rightarrow> state \<Rightarrow> event list" where
  "events_of m s = drop (length (trace s)) (trace (snd (m s)))"

definition LOGI :: "string \<Rightarrow> unit prog" where
  "LOGI msg = emit (Log INFO msg)"

definition LOGW :: "string \<Rightarrow> unit prog" where
  "LOGW msg = emit (Log WARN msg)"

definition LOGE :: "string \<Rightarrow> unit prog" where
  "LOGE msg = emit (Log ERROR msg)"

subsection \<open>The store of context structs\<close>

text \<open>
  \<open>load\<close> and \<open>store\<close> are the accesses \<open>is->field\<close>. A block that was never
  allocated or was freed is not in the store.
\<close>

definition load :: "ptr \<Rightarrow> input_stream_context prog" where
  "load p = (\<lambda>s. case p of
       None \<Rightarrow> (Inl NullDeref, s)
     | Some a \<Rightarrow> (case heap s a of None \<Rightarrow> (Inl UseAfterFree, s) | Some c \<Rightarrow> (Inr c, s)))"

definition store :: "ptr \<Rightarrow> input_stream_context \<Rightarrow> unit prog" where
  "store p c = (\<lambda>s. case p of
       None \<Rightarrow> (Inl NullDeref, s)
     | Some a \<Rightarrow> (case heap s a of
           None \<Rightarrow> (Inl UseAfterFree, s)
         | Some _ \<Rightarrow> (Inr (), s\<lparr>heap := (heap s)(a := Some c)\<rparr>)))"

definition malloc :: "runtime \<Rightarrow> ptr prog" where
  "malloc rt = (\<lambda>s. case on_malloc rt (trace s) of
       None \<Rightarrow> (Inr NULL, s\<lparr>trace := trace s @ [Malloc NULL]\<rparr>)
     | Some c \<Rightarrow> (Inr (Some (next_block s)),
         s\<lparr>heap := (heap s)(next_block s := Some c), next_block := Suc (next_block s),
           trace := trace s @ [Malloc (Some (next_block s))]\<rparr>))"

text \<open>\<open>free\<close> of a context struct; \<open>free(NULL)\<close> does nothing.\<close>

definition free :: "ptr \<Rightarrow> unit prog" where
  "free p = (\<lambda>s. case p of
       None \<Rightarrow> (Inr (), s\<lparr>trace := trace s @ [Free NULL]\<rparr>)
     | Some a \<Rightarrow> (case heap s a of
           None \<Rightarrow> (Inl DoubleFree, s\<lparr>trace := trace s @ [Free p]\<rparr>)
         | Some _ \<Rightarrow> (Inr (), s\<lparr>heap := (heap s)(a := None), trace := trace s @ [Free p]\<rparr>)))"

subsection \<open>The JNI function table\<close>

text \<open>Every function of the table is reached through \<open>(*env)->\<close>, which needs a \<open>JNIEnv\<close>.\<close>

definition via :: "ptr \<Rightarrow> 'a prog \<Rightarrow> 'a prog" where
  "via e m = (if e = NULL then crash NullDeref else m)"

definition jni_NewByteArray :: "runtime \<Rightarrow> ptr \<Rightarrow> jint \<Rightarrow> ptr prog" where
  "jni_NewByteArray rt e len = via e (\<lambda>s.
     let (r, threw) = on_NewByteArray rt (trace s) len
     in (Inr r, s\<lparr>pending := pending s \<or> threw, trace := trace s @ [NewByteArray len r]\<rparr>))"

definition jni_CallIntMethod :: "runtime \<Rightarrow> ptr \<Rightarrow> ptr \<Rightarrow> ptr \<Rightarrow> jvalue list \<Rightarrow> jint prog" where
  "jni_CallIntMethod rt e obj mid args = via e (\<lambda>s.
     let (r, threw) = on_CallIntMethod rt (trace s) obj mid args
     in (Inr r, s\<lparr>pending := pending s \<or> threw, trace := trace s @ [CallIntMethod obj mid args r]\<rparr>))"

definition jni_ExceptionCheck :: "ptr \<Rightarrow> bool prog" where
  "jni_ExceptionCheck e = via e (\<lambda>s.
     (Inr (pending s), s\<lparr>trace := trace s @ [ExceptionCheck (pending s)]\<rparr>))"

definition jni_ExceptionDescribe :: "ptr \<Rightarrow> unit prog" where
  "jni_ExceptionDescribe e = via e (emit ExceptionDescribe)"

definition jni_ExceptionClear :: "ptr \<Rightarrow> unit prog" where
  "jni_ExceptionClear e = via e (\<lambda>s.
     (Inr (), s\<lparr>pending := False, trace := trace s @ [ExceptionClear]\<rparr>))"

definition jni_DeleteLocalRef :: "ptr \<Rightarrow> ptr \<Rightarrow> unit prog" where
  "jni_DeleteLocalRef e r = via e (emit (DeleteLocalRef r))"

definition jni_GetByteArrayRegion :: "runtime \<Rightarrow> ptr \<Rightarrow> ptr \<Rightarrow> jint \<Rightarrow> jint \<Rightarrow> unit prog" where
  "jni_GetByteArrayRegion rt e arr start len = via e (\<lambda>s.
     let threw = on_GetByteArrayRegion rt (trace s) arr start len
     in (Inr (), s\<lparr>pending := pending s \<or> threw,
                   trace := trace s @ [GetByteArrayRegion arr start len]\<rparr>))"

definition jni_NewGlobalRef :: "runtime \<Rightarrow> ptr \<Rightarrow> ptr \<Rightarrow> ptr prog" where
  "jni_NewGlobalRef rt e obj = via e (\<lambda>s.
     let r = on_NewGlobalRef rt (trace s) obj
     in (Inr r, s\<lparr>trace := trace s @ [NewGlobalRef obj r]\<rparr>))"

definition jni_DeleteGlobalRef :: "ptr \<Rightarrow> ptr \<Rightarrow> unit prog" where
  "jni_DeleteGlobalRef e r = via e (emit (DeleteGlobalRef r))"

subsection \<open>The stream adapter\<close>

text \<open>
  \<open>inputStreamRead\<close>, lines 45 to 102. \<open>(jint)read_size\<close> keeps the low 32 bits
  (\<open>ucast\<close>); \<open>(size_t)actual_bytes_read\<close> extends the sign (\<open>scast\<close>).
\<close>

definition inputStreamRead :: "runtime \<Rightarrow> ptr \<Rightarrow> size_t \<Rightarrow> size_t prog" where
  "inputStreamRead rt ctx read_size =
     seq (load ctx) (\<lambda>is.
     if read_size = 0 then ret 0
     else
     seq (jni_NewByteArray rt (env is) (ucast read_size)) (\<lambda>java_byte_array.
     if java_byte_array = NULL then
       seq (LOGW msg_57) (\<lambda>_. ret 0)
     else
     seq (jni_CallIntMethod rt (env is) (input_stream is) (mid_read is)
            [L java_byte_array, I 0, I (ucast read_size)]) (\<lambda>actual_bytes_read.
     seq (jni_ExceptionCheck (env is)) (\<lambda>raised.
     if raised then
       seq (block
         [LOGW msg_67,
          jni_ExceptionDescribe (env is),
          jni_ExceptionClear (env is),
          jni_DeleteLocalRef (env is) java_byte_array]) (\<lambda>_. ret 0)
     else
     seq (if 0 <s actual_bytes_read then
            seq (jni_GetByteArrayRegion rt (env is) java_byte_array 0 actual_bytes_read) (\<lambda>_.
            seq (jni_ExceptionCheck (env is)) (\<lambda>raised_in_copy.
            if raised_in_copy then
              seq (block
                [LOGW msg_81,
                 jni_ExceptionDescribe (env is),
                 jni_ExceptionClear (env is)]) (\<lambda>_. ret 0)
            else ret (scast actual_bytes_read)))
          else if actual_bytes_read = - 1 then
            seq (LOGI msg_92) (\<lambda>_. ret 0)
          else
            seq (LOGI msg_95)
              (\<lambda>_. ret 0)) (\<lambda>result_bytes.
     seq (jni_DeleteLocalRef (env is) java_byte_array) (\<lambda>_.
     seq (load ctx) (\<lambda>cur.
     seq (store ctx (cur\<lparr>offset := offset cur + result_bytes\<rparr>)) (\<lambda>_.
     ret result_bytes))))))))"

text \<open>\<open>inputStreamEof\<close>, lines 105 to 110.\<close>

definition inputStreamEof :: "runtime \<Rightarrow> ptr \<Rightarrow> bool prog" where
  "inputStreamEof rt ctx =
     seq (load ctx) (\<lambda>is.
     seq (jni_CallIntMethod rt (env is) (input_stream is) (mid_available is) []) (\<lambda>result.
     ret (result \<le>s 0)))"

text \<open>
  \<open>inputStreamClose\<close>, lines 112 to 176. The calls on \<open>g_vm\<close> write the local \<open>env\<close>;
  the value written is the second component of the answer.
\<close>

definition vm_GetEnv :: "runtime \<Rightarrow> (jint \<times> ptr) prog" where
  "vm_GetEnv rt = (\<lambda>s.
     let (status, e) = on_GetEnv rt (trace s)
     in (Inr (status, e), s\<lparr>trace := trace s @ [GetEnv status e]\<rparr>))"

definition vm_AttachCurrentThread :: "runtime \<Rightarrow> (jint \<times> ptr) prog" where
  "vm_AttachCurrentThread rt = (\<lambda>s.
     let (r, e) = on_AttachCurrentThread rt (trace s)
     in (Inr (r, e), s\<lparr>trace := trace s @ [AttachCurrentThread r e]\<rparr>))"

text \<open>Lines 161 to 175: what the function does once it holds an \<open>env\<close>.\<close>

definition inputStreamClose_release :: "ptr \<Rightarrow> ptr \<Rightarrow> bool \<Rightarrow> unit prog" where
  "inputStreamClose_release ctx e attached_here =
     seq (load ctx) (\<lambda>is.
     seq (if input_stream is \<noteq> NULL then
            block
              [LOGI msg_162,
               jni_DeleteGlobalRef e (input_stream is),
               store ctx (is\<lparr>input_stream := NULL\<rparr>)]
          else
            LOGW msg_166) (\<lambda>_.
     seq (LOGI msg_169) (\<lambda>_.
     seq (free ctx) (\<lambda>_.
     if attached_here then
       block
         [LOGI msg_173,
          emit DetachCurrentThread]
     else ret ()))))"

definition inputStreamClose :: "runtime \<Rightarrow> ptr \<Rightarrow> unit prog" where
  "inputStreamClose rt ctx =
     seq (LOGI msg_113) (\<lambda>_.
     if ctx = NULL then
       LOGW msg_116
     else
     seq (gets g_vm) (\<lambda>vm.
     if vm = NULL then
       seq (LOGE msg_124) (\<lambda>_.
       seq (load ctx) (\<lambda>is.
       seq (if input_stream is \<noteq> NULL then
              LOGW msg_128
            else ret ()) (\<lambda>_.
       free ctx)))
     else
     seq (vm_GetEnv rt) (\<lambda>(getEnvStat, e).
     if getEnvStat = JNI_EDETACHED then
       seq (LOGI msg_137) (\<lambda>_.
       seq (vm_AttachCurrentThread rt) (\<lambda>(r, e').
       if r \<noteq> 0 then
         seq (LOGE msg_139) (\<lambda>_.
         seq (load ctx) (\<lambda>is.
         seq (if input_stream is \<noteq> NULL then
                LOGW msg_142
              else ret ()) (\<lambda>_.
         free ctx)))
       else inputStreamClose_release ctx e' True))
     else if getEnvStat = JNI_EVERSION then
       seq (LOGE msg_149) (\<lambda>_.
       seq (load ctx) (\<lambda>is.
       seq (if input_stream is \<noteq> NULL then
              LOGW msg_152
            else ret ()) (\<lambda>_.
       free ctx)))
     else
       seq (if getEnvStat = JNI_OK then
              LOGI msg_157
            else ret ()) (\<lambda>_.
       inputStreamClose_release ctx e False))))"

subsection \<open>The asset callbacks and the loader's function pointers\<close>

text \<open>Lines 337 to 347. \<open>AAsset_read\<close> returns an \<open>int\<close>, converted to \<open>size_t\<close>.\<close>

definition asset_read :: "runtime \<Rightarrow> ptr \<Rightarrow> size_t \<Rightarrow> size_t prog" where
  "asset_read rt ctx read_size = (\<lambda>s.
     let r = on_AAsset_read rt (trace s) ctx read_size
     in (Inr (scast r), s\<lparr>trace := trace s @ [AAsset_read ctx read_size r]\<rparr>))"

definition asset_is_eof :: "runtime \<Rightarrow> ptr \<Rightarrow> bool prog" where
  "asset_is_eof rt ctx = (\<lambda>s.
     let r = on_AAsset_getRemainingLength64 rt (trace s) ctx
     in (Inr (r \<le>s 0), s\<lparr>trace := trace s @ [AAsset_getRemainingLength64 ctx r]\<rparr>))"

definition asset_close :: "ptr \<Rightarrow> unit prog" where
  "asset_close ctx = emit (AAsset_close ctx)"

text \<open>A call through a function pointer of the loader runs the function it names.\<close>

definition call_read :: "runtime \<Rightarrow> read_fn \<Rightarrow> ptr \<Rightarrow> size_t \<Rightarrow> size_t prog" where
  "call_read rt f ctx n =
     (case f of fn_inputStreamRead \<Rightarrow> inputStreamRead rt ctx n
              | fn_asset_read \<Rightarrow> asset_read rt ctx n)"

definition call_eof :: "runtime \<Rightarrow> eof_fn \<Rightarrow> ptr \<Rightarrow> bool prog" where
  "call_eof rt f ctx =
     (case f of fn_inputStreamEof \<Rightarrow> inputStreamEof rt ctx
              | fn_asset_is_eof \<Rightarrow> asset_is_eof rt ctx)"

definition call_close :: "runtime \<Rightarrow> close_fn \<Rightarrow> ptr \<Rightarrow> unit prog" where
  "call_close rt f ctx =
     (case f of fn_inputStreamClose \<Rightarrow> inputStreamClose rt ctx
              | fn_asset_close \<Rightarrow> asset_close ctx)"

subsection \<open>The initializers\<close>

text \<open>
  \<open>Java_com_whispercpp_whisper_WhisperLib_initContextFromInputStream\<close>, lines 260 to 334.
  The returned \<open>jlong\<close> is the context pointer, 0 for \<open>NULL\<close>.
\<close>

definition zeroed :: input_stream_context where
  "zeroed = \<lparr>offset = 0, env = NULL, input_stream = NULL, mid_available = NULL, mid_read = NULL\<rparr>"

definition Java_com_whispercpp_whisper_WhisperLib_initContextFromInputStream ::
  "runtime \<Rightarrow> ptr \<Rightarrow> ptr \<Rightarrow> ptr prog" where
  "Java_com_whispercpp_whisper_WhisperLib_initContextFromInputStream rt e input_stream_param =
     seq (gets (\<lambda>s. g_inputStreamClass s = NULL \<or> g_midInputStreamAvailable s = NULL
                      \<or> g_midInputStreamRead s = NULL)) (\<lambda>uninitialised.
     if uninitialised then
       seq (LOGW msg_266) (\<lambda>_.
       ret NULL)
     else
     seq (malloc rt) (\<lambda>inp_ctx_ptr.
     if inp_ctx_ptr = NULL then
       seq (LOGW msg_275) (\<lambda>_. ret NULL)
     else
     seq (store inp_ctx_ptr zeroed) (\<lambda>_.
     seq (store inp_ctx_ptr (zeroed\<lparr>offset := 0, env := e\<rparr>)) (\<lambda>_.
     seq (jni_NewGlobalRef rt e input_stream_param) (\<lambda>g.
     seq (store inp_ctx_ptr (zeroed\<lparr>offset := 0, env := e, input_stream := g\<rparr>)) (\<lambda>_.
     if g = NULL then
       seq (LOGW msg_287) (\<lambda>_.
       seq (free inp_ctx_ptr) (\<lambda>_. ret NULL))
     else
     seq (gets (\<lambda>s. (g_midInputStreamAvailable s, g_midInputStreamRead s))) (\<lambda>(mav, mrd).
     seq (store inp_ctx_ptr
            (zeroed\<lparr>offset := 0, env := e, input_stream := g,
                    mid_available := mav, mid_read := mrd\<rparr>)) (\<lambda>_.
     seq (LOGI msg_295) (\<lambda>_.
     let loader = \<lparr>l_context = inp_ctx_ptr, l_read = Some fn_inputStreamRead,
                   l_eof = Some fn_inputStreamEof, l_close = Some fn_inputStreamClose\<rparr>
     in
     seq (case l_eof loader of
            Some f \<Rightarrow>
              seq (LOGI msg_309) (\<lambda>_.
              seq (call_eof rt f (l_context loader)) (\<lambda>_. ret ()))
          | None \<Rightarrow>
              LOGW msg_312) (\<lambda>_.
     seq (emit whisper_context_default_params) (\<lambda>_.
     seq (emit (whisper_init_with_params loader)) (\<lambda>_.
     seq (on_whisper_init_with_params rt loader) (\<lambda>context.
     seq (LOGI msg_317) (\<lambda>_.
     if context = NULL then
       seq (block
         [LOGW msg_320,
          LOGW msg_328])
         (\<lambda>_. ret NULL)
     else ret context))))))))))))))"

text \<open>\<open>whisper_init_from_asset\<close>, lines 349 to 370.\<close>

definition whisper_init_from_asset :: "runtime \<Rightarrow> ptr \<Rightarrow> ptr \<Rightarrow> string \<Rightarrow> ptr prog" where
  "whisper_init_from_asset rt e assetManager asset_path =
     seq (LOGI msg_354) (\<lambda>_.
     seq (\<lambda>s. let m = on_AAssetManager_fromJava rt (trace s) assetManager
              in (Inr m, s\<lparr>trace := trace s @ [AAssetManager_fromJava assetManager m]\<rparr>))
       (\<lambda>asset_manager.
     seq (\<lambda>s. let a = on_AAssetManager_open rt (trace s) asset_manager asset_path
              in (Inr a, s\<lparr>trace := trace s @ [AAssetManager_open asset_manager asset_path a]\<rparr>))
       (\<lambda>asset.
     if asset = NULL then
       seq (LOGW msg_358) (\<lambda>_. ret NULL)
     else
     let loader = \<lparr>l_context = asset, l_read = Some fn_asset_read,
                   l_eof = Some fn_asset_is_eof, l_close = Some fn_asset_close\<rparr>
     in
     seq (emit whisper_context_default_params) (\<lambda>_.
     seq (emit (whisper_init_with_params loader)) (\<lambda>_.
     on_whisper_init_with_params rt loader)))))"

subsection \<open>Transcription\<close>

text \<open>
  \<open>Java_com_whispercpp_whisper_WhisperLib_fullTranscribe\<close>, lines 412 to 493. The elapsed
  time is only logged; the timing block belongs to the engine's allocator, so its
  \<open>free\<close> is recorded and does not touch the store of context structs.
\<close>

definition log_timings :: "string \<Rightarrow> unit prog" where
  "log_timings heading =
     block [LOGI heading,
            LOGI msg_sample,
            LOGI msg_encode,
            LOGI msg_decode,
            LOGI msg_batchd,
            LOGI msg_prompt]"

definition jni_GetFloatArrayElements :: "runtime \<Rightarrow> ptr \<Rightarrow> ptr \<Rightarrow> ptr prog" where
  "jni_GetFloatArrayElements rt e arr = via e (\<lambda>s.
     let r = on_GetFloatArrayElements rt (trace s) arr
     in (Inr r, s\<lparr>trace := trace s @ [GetFloatArrayElements arr r]\<rparr>))"

definition jni_GetArrayLength :: "runtime \<Rightarrow> ptr \<Rightarrow> ptr \<Rightarrow> jint prog" where
  "jni_GetArrayLength rt e arr = via e (\<lambda>s.
     let r = on_GetArrayLength rt (trace s) arr
     in (Inr r, s\<lparr>trace := trace s @ [GetArrayLength arr r]\<rparr>))"

definition jni_ReleaseFloatArrayElements :: "ptr \<Rightarrow> ptr \<Rightarrow> ptr \<Rightarrow> jint \<Rightarrow> unit prog" where
  "jni_ReleaseFloatArrayElements e arr elems mode =
     via e (emit (ReleaseFloatArrayElements arr elems mode))"

definition engine_whisper_full ::
  "runtime \<Rightarrow> ptr \<Rightarrow> whisper_full_params \<Rightarrow> ptr \<Rightarrow> jint \<Rightarrow> (32 word) prog" where
  "engine_whisper_full rt context params samples n = (\<lambda>s.
     let r = on_whisper_full rt (trace s) context params samples n
     in (Inr r, s\<lparr>trace := trace s @ [whisper_full context params samples n r]\<rparr>))"

definition engine_whisper_get_timings :: "runtime \<Rightarrow> ptr \<Rightarrow> ptr prog" where
  "engine_whisper_get_timings rt context = (\<lambda>s.
     let r = on_whisper_get_timings rt (trace s) context
     in (Inr r, s\<lparr>trace := trace s @ [whisper_get_timings context r]\<rparr>))"

definition Java_com_whispercpp_whisper_WhisperLib_fullTranscribe ::
  "runtime \<Rightarrow> ptr \<Rightarrow> ptr \<Rightarrow> jint \<Rightarrow> ptr \<Rightarrow> unit prog" where
  "Java_com_whispercpp_whisper_WhisperLib_fullTranscribe rt e context num_threads audio_data =
     seq (jni_GetFloatArrayElements rt e audio_data) (\<lambda>audio_data_arr.
     seq (jni_GetArrayLength rt e audio_data) (\<lambda>audio_data_length.
     let params = (on_whisper_full_default_params rt)
           \<lparr>print_realtime := False, print_progress := False, print_timestamps := True,
            print_special := False, translate := False, language := ''en'',
            n_threads := num_threads, offset_ms := 0, no_context := True,
            single_segment := False\<rparr>
     in
     seq (LOGI msg_432) (\<lambda>_.
     if context = NULL then
       seq (LOGE msg_435) (\<lambda>_.
       if audio_data_arr \<noteq> NULL then
         jni_ReleaseFloatArrayElements e audio_data audio_data_arr JNI_ABORT
       else ret ())
     else if audio_data_arr = NULL then
       LOGE msg_443
     else
     seq (block
       [emit (whisper_reset_timings context),
        LOGI msg_449,
        emit clock_gettime]) (\<lambda>_.
     seq (engine_whisper_full rt context params audio_data_arr audio_data_length) (\<lambda>result.
     seq (block
       [emit clock_gettime,
        LOGI msg_460]) (\<lambda>_.
     seq (if result = 0 then
            seq (LOGI msg_464) (\<lambda>_.
            seq (engine_whisper_get_timings rt context) (\<lambda>timings.
            if timings \<noteq> NULL then
              block [log_timings msg_467, emit (Free timings)]
            else
              LOGW msg_475))
          else
            seq (LOGE msg_478) (\<lambda>_.
            seq (engine_whisper_get_timings rt context) (\<lambda>timings.
            if timings \<noteq> NULL then
              block [log_timings msg_481, emit (Free timings)]
            else ret ()))) (\<lambda>_.
     jni_ReleaseFloatArrayElements e audio_data audio_data_arr JNI_ABORT)))))))"

subsection \<open>Observations on traces\<close>

fun is_Free :: "event \<Rightarrow> bool" where
  "is_Free (Free _) = True"
| "is_Free _ = False"

fun is_DeleteGlobalRef :: "event \<Rightarrow> bool" where
  "is_DeleteGlobalRef (DeleteGlobalRef _) = True"
| "is_DeleteGlobalRef _ = False"

fun is_ReleaseFloatArrayElements :: "event \<Rightarrow> bool" where
  "is_ReleaseFloatArrayElements (ReleaseFloatArrayElements _ _ _) = True"
| "is_ReleaseFloatArrayElements _ = False"

fun is_whisper_full :: "event \<Rightarrow> bool" where
  "is_whisper_full (whisper_full _ _ _ _ _) = True"
| "is_whisper_full _ = False"

text \<open>
  The warning that the three paths of \<open>inputStreamClose\<close> without a usable \<open>env\<close> log
  when they give up a reference that is still set.
\<close>

definition leak_warning :: "input_stream_context \<Rightarrow> string \<Rightarrow> event list" where
  "leak_warning c msg = (if input_stream c \<noteq> NULL then [Log WARN msg] else [])"

subsection \<open>Example inputs\<close>

text \<open>
  A context at address 0 of the store, and a runtime in which the stream hands out at most
  five bytes per \<open>read\<close>, reports three bytes as available, the callbacks run on a thread
  that is not attached yet, and only one asset exists.
\<close>

definition example_context :: input_stream_context where
  "example_context =
     \<lparr>offset = 0, env = Some 1, input_stream = Some 2, mid_available = Some 3,
      mid_read = Some 4\<rparr>"

definition example_state :: state where
  "example_state =
     \<lparr>heap = (\<lambda>_. None)(0 := Some example_context), next_block = 1, g_vm = Some 9,
      g_inputStreamClass = Some 5, g_midInputStreamAvailable = Some 3,
      g_midInputStreamRead = Some 4, pending = False, trace = []\<rparr>"

definition example_runtime :: runtime where
  "example_runtime =
     \<lparr>on_NewByteArray = (\<lambda>h len. (Some 20, False)),
      on_CallIntMethod = (\<lambda>h obj mid args.
         case args of
           [L arr, I off, I len] \<Rightarrow> (if 5 \<le>s len then 5 else len, False)
         | _ \<Rightarrow> (3, False)),
      on_GetByteArrayRegion = (\<lambda>h arr start len. False),
      on_NewGlobalRef = (\<lambda>h obj. Some 30),
      on_GetFloatArrayElements = (\<lambda>h arr. Some 40),
      on_GetArrayLength = (\<lambda>h arr. 16000),
      on_GetEnv = (\<lambda>h. (JNI_EDETACHED, NULL)),
      on_AttachCurrentThread = (\<lambda>h. (0, Some 1)),
      on_malloc = (\<lambda>h. Some example_context),
      on_AAssetManager_fromJava = (\<lambda>h m. Some 50),
      on_AAssetManager_open = (\<lambda>h m path. if path = ''models/ggml-tiny.bin'' then Some 60 else NULL),
      on_AAsset_read = (\<lambda>h a n. 0),
      on_AAsset_getRemainingLength64 = (\<lambda>h a. 0),
      on_whisper_init_with_params = (\<lambda>loader. ret NULL),
      on_whisper_full_default_params =
        \<lparr>print_realtime = True, print_progress = True, print_timestamps = False,
         print_special = False, translate = False, language = ''auto'', n_threads = 4,
         offset_ms = 0, no_context = False, single_segment = False\<rparr>,
      on_whisper_full = (\<lambda>h context params samples n. 0),
      on_whisper_get_timings = (\<lambda>h context. Some 70)\<rparr>"

section \<open>Properties\<close>

subsection \<open>Unfolding the plumbing\<close>

lemmas prog_defs = ret_def crash_def seq_def gets_def emit_def LOGI_def LOGW_def LOGE_def
  load_def store_def free_def via_def malloc_def
  jni_NewByteArray_def jni_CallIntMethod_def jni_ExceptionCheck_def jni_ExceptionDescribe_def
  jni_ExceptionClear_def jni_DeleteLocalRef_def jni_GetByteArrayRegion_def jni_NewGlobalRef_def
  jni_DeleteGlobalRef_def

lemma JNI_status_distinct:
  "JNI_EVERSION \<noteq> JNI_EDETACHED" "JNI_OK \<noteq> JNI_EDETACHED" "JNI_OK \<noteq> JNI_EVERSION"
  "JNI_EDETACHED \<noteq> JNI_EVERSION" "JNI_EDETACHED \<noteq> JNI_OK" "JNI_EVERSION \<noteq> JNI_OK"
  by (simp_all add: JNI_OK_def JNI_EDETACHED_def JNI_EVERSION_def)

lemma example_live: "heap example_state 0 = Some example_context"
  by (simp add: example_state_def)

subsection \<open>Casts between \<open>size_t\<close> and \<open>jint\<close>\<close>

lemma sint_le_uint: "sint (w :: 'a::len word) \<le> uint w"
proof -
  have "- (2 ^ (LENGTH('a) - Suc 0)) \<le> uint w"
    by (rule order_trans [of _ 0]) simp_all
  then show ?thesis
    by (simp add: sint_uint signed_take_bit_int_less_eq_self_iff)
qed

lemma uint_ucast_le_self: "uint (ucast (n :: 'a::len word) :: 'b::len word) \<le> uint n"
  by (simp add: unsigned_ucast_eq take_bit_int_less_eq_self_iff)

lemma uint_scast_pos:
  fixes r :: jint
  assumes "0 < sint r"
  shows "uint (scast r :: size_t) = sint r"
proof -
  have "sint r < 2 ^ (LENGTH(32) - 1)" by (rule sint_lt)
  also have "(2::int) ^ (LENGTH(32) - 1) \<le> 2 ^ LENGTH(64)"
    by (rule power_increasing) simp_all
  finally have lt: "sint r < 2 ^ LENGTH(64)" .
  have "uint (scast r :: size_t) = sint r mod 2 ^ LENGTH(64)"
    by (simp only: scast_eq uint_word_of_int)
  also have "\<dots> = sint r"
    using assms lt by (intro mod_pos_pos_trivial) simp_all
  finally show ?thesis .
qed

text \<open>
  A positive count that does not exceed the length passed to the stream does not exceed
  the size the caller asked for, whatever the truncation of that size to 32 bits did.
\<close>

lemma scast_le_requested:
  fixes r :: jint and n :: size_t
  assumes "0 <s r" and "r \<le>s ucast n"
  shows "(scast r :: size_t) \<le> n"
proof -
  have pos: "0 < sint r" using assms(1) by (simp add: word_sless_alt)
  have "sint r \<le> sint (ucast n :: jint)" using assms(2) by (simp add: word_sle_eq)
  also have "\<dots> \<le> uint (ucast n :: jint)" by (rule sint_le_uint)
  also have "\<dots> \<le> uint n" by (rule uint_ucast_le_self)
  finally have "sint r \<le> uint n" .
  then show ?thesis using uint_scast_pos [OF pos] by (simp add: word_le_def)
qed

subsection \<open>\<open>inputStreamRead\<close>\<close>

lemma inputStreamRead_returns:
  assumes "heap s a = Some c" and "env c = Some j"
  shows "\<exists>n s'. inputStreamRead rt (Some a) read_size s = (Inr n, s')"
  using assms
  by (auto simp: inputStreamRead_def prog_defs Let_def split_def split: if_splits)

lemma inputStreamRead_result:
  assumes live: "heap s a = Some c"
    and len: "\<And>h obj m arr off len.
                fst (on_CallIntMethod rt h obj m [L arr, I off, I len]) \<le>s len"
    and run: "inputStreamRead rt (Some a) read_size s = (Inr n, s')"
  shows "n \<le> read_size \<and> heap s' = (heap s)(a \<mapsto> c\<lparr>offset := offset c + n\<rparr>)"
  using live run
    len [of "trace s @ [NewByteArray (ucast read_size)
                          (fst (on_NewByteArray rt (trace s) (ucast read_size)))]"
            "input_stream c" "mid_read c"
            "fst (on_NewByteArray rt (trace s) (ucast read_size))" 0 "ucast read_size"]
  by (auto simp: inputStreamRead_def prog_defs Let_def split_def scast_le_requested
      fun_upd_idem split: if_splits)

text \<open>
  C1. Every call of \<open>inputStreamRead\<close> on a live context that returns, returns a count that
  is at most the requested size, and leaves the context as it was except for \<open>offset\<close>,
  which has grown by exactly the returned count (in \<open>size_t\<close> arithmetic); and with a
  \<open>JNIEnv\<close> in the context the call does return. The stream is assumed to return at most
  the length it is passed.
\<close>

theorem inputStreamRead_count_and_offset:
  assumes "heap s a = Some c"
    and "\<And>h obj m arr off len.
           fst (on_CallIntMethod rt h obj m [L arr, I off, I len]) \<le>s len"
  shows "(env c \<noteq> NULL \<longrightarrow> (\<exists>n s'. inputStreamRead rt (Some a) read_size s = (Inr n, s')))
       \<and> (\<forall>n s'. inputStreamRead rt (Some a) read_size s = (Inr n, s') \<longrightarrow>
             n \<le> read_size \<and> heap s' = (heap s)(a \<mapsto> c\<lparr>offset := offset c + n\<rparr>))"
  using inputStreamRead_returns [OF assms(1)] inputStreamRead_result [OF assms]
  by blast

lemma example_read_within_length:
  "fst (on_CallIntMethod example_runtime h obj m [L arr, I off, I len]) \<le>s len"
  by (simp add: example_runtime_def word_sle_eq)

theorem inputStreamRead_count_and_offset_witness:
  "heap example_state 0 = Some example_context
   \<and> fst (inputStreamRead example_runtime (Some 0) 8 example_state) = Inr 5
   \<and> (5 :: size_t) \<le> 8
   \<and> heap (snd (inputStreamRead example_runtime (Some 0) 8 example_state))
       = (heap example_state)(0 \<mapsto> example_context\<lparr>offset := offset example_context + 5\<rparr>)"
proof -
  have run: "fst (inputStreamRead example_runtime (Some 0) 8 example_state) = Inr 5"
    by (simp add: inputStreamRead_def prog_defs example_state_def example_context_def
        example_runtime_def word_sle_eq word_sless_alt)
  then have "inputStreamRead example_runtime (Some 0) 8 example_state
      = (Inr 5, snd (inputStreamRead example_runtime (Some 0) 8 example_state))"
    by (simp add: prod_eq_iff)
  with inputStreamRead_count_and_offset [OF example_live example_read_within_length, of 8]
  show ?thesis
    using example_live run by blast
qed

text \<open>
  C10. With a requested size of zero \<open>inputStreamRead\<close> returns 0 and leaves the whole
  state as it was: nothing is added to the trace (no array is allocated, no method of the
  stream is called) and the store, hence \<open>offset\<close>, is unchanged.
\<close>

theorem inputStreamRead_zero_size:
  "heap s a = Some c \<Longrightarrow> inputStreamRead rt (Some a) 0 s = (Inr 0, s)"
  by (simp add: inputStreamRead_def prog_defs)

theorem inputStreamRead_zero_size_witness:
  "heap example_state 0 = Some example_context
   \<and> inputStreamRead example_runtime (Some 0) 0 example_state = (Inr 0, example_state)"
  using example_live inputStreamRead_zero_size [OF example_live] by simp

subsection \<open>\<open>inputStreamEof\<close>\<close>

text \<open>
  C5. On a live context \<open>inputStreamEof\<close> returns true exactly when the value that the
  stream's \<open>available()\<close> returned is zero or less. The store of contexts, and so the
  cumulative offset, is unchanged. The stream itself lives in the managed runtime, where
  only its own methods can move its position: the call adds a single event to the trace,
  the call of \<open>available()\<close>, so \<open>read\<close> is not invoked and nothing is consumed.
\<close>

theorem inputStreamEof_probe:
  assumes "heap s a = Some c" and "env c \<noteq> NULL"
  shows "fst (inputStreamEof rt (Some a) s)
           = Inr (sint (fst (on_CallIntMethod rt (trace s) (input_stream c) (mid_available c) []))
                    \<le> 0)
       \<and> heap (snd (inputStreamEof rt (Some a) s)) = heap s
       \<and> events_of (inputStreamEof rt (Some a)) s
           = [CallIntMethod (input_stream c) (mid_available c) []
                (fst (on_CallIntMethod rt (trace s) (input_stream c) (mid_available c) []))]"
  using assms
  by (simp add: inputStreamEof_def prog_defs events_of_def split_def Let_def word_sle_eq)

theorem inputStreamEof_probe_witness:
  "heap example_state 0 = Some example_context \<and> env example_context \<noteq> NULL
   \<and> fst (inputStreamEof example_runtime (Some 0) example_state) = Inr False
   \<and> heap (snd (inputStreamEof example_runtime (Some 0) example_state)) = heap example_state
   \<and> events_of (inputStreamEof example_runtime (Some 0)) example_state
       = [CallIntMethod (Some 2) (Some 3) [] 3]"
proof -
  have e: "env example_context \<noteq> NULL"
    by (simp add: example_context_def)
  show ?thesis
    using example_live e inputStreamEof_probe [OF example_live e, of example_runtime]
    by (simp add: example_runtime_def example_context_def)
qed

subsection \<open>\<open>inputStreamClose\<close>, path by path\<close>

lemma release_live:
  assumes "heap s a = Some c"
  shows "inputStreamClose_release (Some a) e att s =
    (if input_stream c \<noteq> NULL \<and> e = NULL then
       (Inl NullDeref, s\<lparr>trace := trace s @ [Log INFO msg_162]\<rparr>)
     else
       (Inr (), s\<lparr>heap := (heap s)(a := None),
          trace := trace s @
            (if input_stream c \<noteq> NULL
             then [Log INFO msg_162, DeleteGlobalRef (input_stream c)]
             else [Log WARN msg_166]) @
            [Log INFO msg_169, Free (Some a)] @
            (if att then [Log INFO msg_173, DetachCurrentThread] else [])\<rparr>))"
  using assms by (simp add: inputStreamClose_release_def prog_defs)

lemma close_null:
  "inputStreamClose rt NULL s =
     (Inr (), s\<lparr>trace := trace s @ [Log INFO msg_113, Log WARN msg_116]\<rparr>)"
  by (simp add: inputStreamClose_def prog_defs)

lemma close_no_vm:
  assumes "heap s a = Some c" and "g_vm s = NULL"
  shows "inputStreamClose rt (Some a) s =
     (Inr (), s\<lparr>heap := (heap s)(a := None),
        trace := trace s @ [Log INFO msg_113, Log ERROR msg_124] @ leak_warning c msg_128
                   @ [Free (Some a)]\<rparr>)"
  using assms by (simp add: inputStreamClose_def prog_defs leak_warning_def)

lemma close_attach_failed:
  assumes "heap s a = Some c" and "g_vm s = Some vm"
    and "on_GetEnv rt (trace s @ [Log INFO msg_113]) = (JNI_EDETACHED, e)"
    and "on_AttachCurrentThread rt
           (trace s @ [Log INFO msg_113, GetEnv JNI_EDETACHED e, Log INFO msg_137]) = (r, e')"
    and "r \<noteq> 0"
  shows "inputStreamClose rt (Some a) s =
     (Inr (), s\<lparr>heap := (heap s)(a := None),
        trace := trace s @ [Log INFO msg_113, GetEnv JNI_EDETACHED e, Log INFO msg_137,
                            AttachCurrentThread r e', Log ERROR msg_139]
                   @ leak_warning c msg_142 @ [Free (Some a)]\<rparr>)"
  using assms
  by (simp add: inputStreamClose_def vm_GetEnv_def vm_AttachCurrentThread_def prog_defs
      leak_warning_def)

lemma close_attached:
  assumes "g_vm s = Some vm"
    and "on_GetEnv rt (trace s @ [Log INFO msg_113]) = (JNI_EDETACHED, e)"
    and "on_AttachCurrentThread rt
           (trace s @ [Log INFO msg_113, GetEnv JNI_EDETACHED e, Log INFO msg_137]) = (0, e')"
  shows "inputStreamClose rt (Some a) s =
     inputStreamClose_release (Some a) e' True
       (s\<lparr>trace := trace s @ [Log INFO msg_113, GetEnv JNI_EDETACHED e, Log INFO msg_137,
                               AttachCurrentThread 0 e']\<rparr>)"
  using assms
  by (simp add: inputStreamClose_def vm_GetEnv_def vm_AttachCurrentThread_def prog_defs)

lemma close_version:
  assumes "heap s a = Some c" and "g_vm s = Some vm"
    and "on_GetEnv rt (trace s @ [Log INFO msg_113]) = (JNI_EVERSION, e)"
  shows "inputStreamClose rt (Some a) s =
     (Inr (), s\<lparr>heap := (heap s)(a := None),
        trace := trace s @ [Log INFO msg_113, GetEnv JNI_EVERSION e, Log ERROR msg_149]
                   @ leak_warning c msg_152 @ [Free (Some a)]\<rparr>)"
  using assms
  by (simp add: inputStreamClose_def vm_GetEnv_def prog_defs leak_warning_def
      JNI_status_distinct)

lemma close_bound:
  assumes "g_vm s = Some vm"
    and "on_GetEnv rt (trace s @ [Log INFO msg_113]) = (st, e)"
    and "st \<noteq> JNI_EDETACHED" and "st \<noteq> JNI_EVERSION"
  shows "inputStreamClose rt (Some a) s =
     inputStreamClose_release (Some a) e False
       (s\<lparr>trace := trace s @ [Log INFO msg_113, GetEnv st e]
                     @ (if st = JNI_OK then [Log INFO msg_157] else [])\<rparr>)"
  using assms
  by (simp add: inputStreamClose_def vm_GetEnv_def prog_defs)

lemma leak_warning_simps:
  "filter is_Free (leak_warning c m) = []"
  "filter is_DeleteGlobalRef (leak_warning c m) = []"
  "DetachCurrentThread \<notin> set (leak_warning c m)"
  "AttachCurrentThread r e \<notin> set (leak_warning c m)"
  "GetEnv st e \<notin> set (leak_warning c m)"
  by (simp_all add: leak_warning_def)

text \<open>
  C4. Called with a null pointer, \<open>inputStreamClose\<close> only logs (the entry line and the
  warning) and changes nothing else. Called on a live context while \<open>g_vm\<close> is null, it
  returns normally after freeing the struct: the trace holds log lines and the \<open>free\<close>,
  and no \<open>DeleteGlobalRef\<close>.
\<close>

theorem inputStreamClose_null_context_or_no_vm:
  "inputStreamClose rt NULL s =
     (Inr (), s\<lparr>trace := trace s @ [Log INFO msg_113, Log WARN msg_116]\<rparr>)
   \<and> (heap s a = Some c \<and> g_vm s = NULL \<longrightarrow>
        inputStreamClose rt (Some a) s =
          (Inr (), s\<lparr>heap := (heap s)(a := None),
             trace := trace s @ [Log INFO msg_113, Log ERROR msg_124]
                        @ (if input_stream c \<noteq> NULL then [Log WARN msg_128] else [])
                        @ [Free (Some a)]\<rparr>))"
  using close_null [of rt s] close_no_vm [of s a c rt]
  by (simp add: leak_warning_def)

theorem inputStreamClose_null_context_or_no_vm_witness:
  "heap (example_state\<lparr>g_vm := NULL\<rparr>) 0 = Some example_context
   \<and> g_vm (example_state\<lparr>g_vm := NULL\<rparr>) = NULL
   \<and> inputStreamClose example_runtime (Some 0) (example_state\<lparr>g_vm := NULL\<rparr>) =
       (Inr (), example_state\<lparr>g_vm := NULL, heap := (heap example_state)(0 := None),
          trace := [Log INFO msg_113, Log ERROR msg_124, Log WARN msg_128, Free (Some 0)]\<rparr>)"
proof -
  have h: "heap (example_state\<lparr>g_vm := NULL\<rparr>) 0 = Some example_context"
    by (simp add: example_state_def)
  have g: "g_vm (example_state\<lparr>g_vm := NULL\<rparr>) = NULL"
    by simp
  have t: "trace example_state = []" and i: "input_stream example_context \<noteq> NULL"
    by (simp_all add: example_state_def example_context_def)
  show ?thesis
    using h g t i
      inputStreamClose_null_context_or_no_vm
        [of example_runtime "example_state\<lparr>g_vm := NULL\<rparr>" 0 example_context]
    by simp
qed

text \<open>
  C3. For every call of \<open>inputStreamClose\<close> on a live context: if \<open>GetEnv\<close> reports the
  thread as detached, \<open>AttachCurrentThread\<close> is called; if that attach fails, the call
  returns normally having freed the struct and nothing else, with no \<open>DeleteGlobalRef\<close>
  and no detach; a call that returns has detached exactly when its own attach succeeded;
  and a detach, when there is one, is the last thing the call does.
\<close>

theorem inputStreamClose_thread_binding:
  assumes live: "heap s a = Some c"
  shows "((\<exists>e. GetEnv JNI_EDETACHED e \<in> set (events_of (inputStreamClose rt (Some a)) s))
            \<longrightarrow> (\<exists>r e'. AttachCurrentThread r e'
                            \<in> set (events_of (inputStreamClose rt (Some a)) s)))
       \<and> (\<forall>r e'. AttachCurrentThread r e' \<in> set (events_of (inputStreamClose rt (Some a)) s)
                   \<and> r \<noteq> 0
            \<longrightarrow> fst (inputStreamClose rt (Some a) s) = Inr ()
              \<and> heap (snd (inputStreamClose rt (Some a) s)) = (heap s)(a := None)
              \<and> filter is_Free (events_of (inputStreamClose rt (Some a)) s) = [Free (Some a)]
              \<and> filter is_DeleteGlobalRef (events_of (inputStreamClose rt (Some a)) s) = []
              \<and> DetachCurrentThread \<notin> set (events_of (inputStreamClose rt (Some a)) s))
       \<and> (fst (inputStreamClose rt (Some a) s) = Inr () \<longrightarrow>
            (DetachCurrentThread \<in> set (events_of (inputStreamClose rt (Some a)) s)
               \<longleftrightarrow> (\<exists>e'. AttachCurrentThread 0 e'
                              \<in> set (events_of (inputStreamClose rt (Some a)) s))))
       \<and> (DetachCurrentThread \<in> set (events_of (inputStreamClose rt (Some a)) s) \<longrightarrow>
            last (events_of (inputStreamClose rt (Some a)) s) = DetachCurrentThread)"
proof -
  obtain st e where ge: "on_GetEnv rt (trace s @ [Log INFO msg_113]) = (st, e)"
    by (cases "on_GetEnv rt (trace s @ [Log INFO msg_113])")
  obtain r e' where at: "on_AttachCurrentThread rt
      (trace s @ [Log INFO msg_113, GetEnv JNI_EDETACHED e, Log INFO msg_137]) = (r, e')"
    by (cases "on_AttachCurrentThread rt
      (trace s @ [Log INFO msg_113, GetEnv JNI_EDETACHED e, Log INFO msg_137])")
  consider (no_vm) "g_vm s = NULL"
    | (failed) vm where "g_vm s = Some vm" "st = JNI_EDETACHED" "r \<noteq> 0"
    | (attached) vm where "g_vm s = Some vm" "st = JNI_EDETACHED" "r = 0"
    | (version) vm where "g_vm s = Some vm" "st = JNI_EVERSION"
    | (bound) vm where "g_vm s = Some vm" "st \<noteq> JNI_EDETACHED" "st \<noteq> JNI_EVERSION"
    by (cases "g_vm s") auto
  then show ?thesis
  proof cases
    case no_vm
    show ?thesis
      by (simp add: events_of_def close_no_vm [OF live no_vm] leak_warning_simps)
  next
    case failed
    show ?thesis
      using failed(3)
      by (simp add: events_of_def leak_warning_simps
          close_attach_failed [OF live failed(1) ge [unfolded failed(2)] at failed(3)])
  next
    case attached
    show ?thesis
      by (simp add: events_of_def live release_live
          close_attached [OF attached(1) ge [unfolded attached(2)] at [unfolded attached(3)]])
  next
    case version
    show ?thesis
      by (simp add: events_of_def leak_warning_simps JNI_status_distinct
          close_version [OF live version(1) ge [unfolded version(2)]])
  next
    case bound
    show ?thesis
      using bound(2)
      by (simp add: events_of_def live close_bound [OF bound(1) ge bound(2) bound(3)]
          release_live)
  qed
qed

lemma example_close:
  "inputStreamClose example_runtime (Some 0) example_state =
     (Inr (), example_state\<lparr>heap := (heap example_state)(0 := None),
        trace := [Log INFO msg_113, GetEnv JNI_EDETACHED NULL, Log INFO msg_137,
                  AttachCurrentThread 0 (Some 1), Log INFO msg_162, DeleteGlobalRef (Some 2),
                  Log INFO msg_169, Free (Some 0), Log INFO msg_173, DetachCurrentThread]\<rparr>)"
proof -
  have vm: "g_vm example_state = Some 9" and t: "trace example_state = []"
    by (simp_all add: example_state_def)
  have ge: "on_GetEnv example_runtime (trace example_state @ [Log INFO msg_113])
              = (JNI_EDETACHED, NULL)"
    by (simp add: example_runtime_def)
  have at: "on_AttachCurrentThread example_runtime
      (trace example_state @ [Log INFO msg_113, GetEnv JNI_EDETACHED NULL, Log INFO msg_137])
        = (0, Some 1)"
    by (simp add: example_runtime_def)
  show ?thesis
    by (simp add: close_attached [OF vm ge at] release_live [where c = example_context]
        example_live t) (simp add: example_context_def)
qed

lemma example_close_refused:
  "inputStreamClose (example_runtime\<lparr>on_AttachCurrentThread := \<lambda>h. (- 1, NULL)\<rparr>) (Some 0)
     example_state =
     (Inr (), example_state\<lparr>heap := (heap example_state)(0 := None),
        trace := [Log INFO msg_113, GetEnv JNI_EDETACHED NULL, Log INFO msg_137,
                  AttachCurrentThread (- 1) NULL, Log ERROR msg_139, Log WARN msg_142,
                  Free (Some 0)]\<rparr>)"
proof -
  let ?rt = "example_runtime\<lparr>on_AttachCurrentThread := \<lambda>h. (- 1, NULL)\<rparr>"
  have vm: "g_vm example_state = Some 9" and t: "trace example_state = []"
    by (simp_all add: example_state_def)
  have ge: "on_GetEnv ?rt (trace example_state @ [Log INFO msg_113]) = (JNI_EDETACHED, NULL)"
    by (simp add: example_runtime_def)
  have at: "on_AttachCurrentThread ?rt
      (trace example_state @ [Log INFO msg_113, GetEnv JNI_EDETACHED NULL, Log INFO msg_137])
        = (- 1, NULL)"
    by simp
  have nz: "(- 1 :: jint) \<noteq> 0"
    by simp
  show ?thesis
    by (simp add: close_attach_failed [OF example_live vm ge at nz] t leak_warning_def
        example_context_def)
qed

theorem inputStreamClose_thread_binding_witness:
  "heap example_state 0 = Some example_context
   \<and> fst (inputStreamClose example_runtime (Some 0) example_state) = Inr ()
   \<and> GetEnv JNI_EDETACHED NULL
       \<in> set (events_of (inputStreamClose example_runtime (Some 0)) example_state)
   \<and> AttachCurrentThread 0 (Some 1)
       \<in> set (events_of (inputStreamClose example_runtime (Some 0)) example_state)
   \<and> DetachCurrentThread
       \<in> set (events_of (inputStreamClose example_runtime (Some 0)) example_state)
   \<and> last (events_of (inputStreamClose example_runtime (Some 0)) example_state)
       = DetachCurrentThread
   \<and> AttachCurrentThread (- 1) NULL
       \<in> set (events_of (inputStreamClose
                 (example_runtime\<lparr>on_AttachCurrentThread := \<lambda>h. (- 1, NULL)\<rparr>) (Some 0))
               example_state)
   \<and> filter is_DeleteGlobalRef
        (events_of (inputStreamClose
           (example_runtime\<lparr>on_AttachCurrentThread := \<lambda>h. (- 1, NULL)\<rparr>) (Some 0))
         example_state) = []"
proof -
  let ?ev = "events_of (inputStreamClose example_runtime (Some 0)) example_state"
  let ?rt' = "example_runtime\<lparr>on_AttachCurrentThread := \<lambda>h. (- 1, NULL)\<rparr>"
  let ?ev' = "events_of (inputStreamClose ?rt' (Some 0)) example_state"
  have t: "trace example_state = []"
    by (simp add: example_state_def)
  have ok: "fst (inputStreamClose example_runtime (Some 0) example_state) = Inr ()"
    by (simp add: example_close)
  have ge: "GetEnv JNI_EDETACHED NULL \<in> set ?ev"
    and att: "AttachCurrentThread 0 (Some 1) \<in> set ?ev"
    by (simp_all add: events_of_def example_close t)
  have att': "AttachCurrentThread (- 1) NULL \<in> set ?ev'"
    by (simp add: events_of_def example_close_refused t)
  note bound = inputStreamClose_thread_binding [OF example_live, of example_runtime]
  note refused = inputStreamClose_thread_binding [OF example_live, of ?rt']
  from bound ok att have det: "DetachCurrentThread \<in> set ?ev"
    by blast
  with bound have lst: "last ?ev = DetachCurrentThread"
    by blast
  have nz: "(- 1 :: jint) \<noteq> 0"
    by simp
  from refused att' nz have "filter is_DeleteGlobalRef ?ev' = []"
    by blast
  with example_live ok ge att det lst att' show ?thesis
    by blast
qed

subsection \<open>Closing twice\<close>

lemma release_dangling:
  "heap s a = None \<Longrightarrow> inputStreamClose_release (Some a) e att s = (Inl UseAfterFree, s)"
  by (simp add: inputStreamClose_release_def prog_defs)

lemma close_dangling:
  assumes gone: "heap s a = None"
  shows "fst (inputStreamClose rt (Some a) s) = Inl UseAfterFree"
proof -
  obtain st e where ge: "on_GetEnv rt (trace s @ [Log INFO msg_113]) = (st, e)"
    by (cases "on_GetEnv rt (trace s @ [Log INFO msg_113])")
  obtain r e' where at: "on_AttachCurrentThread rt
      (trace s @ [Log INFO msg_113, GetEnv JNI_EDETACHED e, Log INFO msg_137]) = (r, e')"
    by (cases "on_AttachCurrentThread rt
      (trace s @ [Log INFO msg_113, GetEnv JNI_EDETACHED e, Log INFO msg_137])")
  consider (no_vm) "g_vm s = NULL"
    | (failed) vm where "g_vm s = Some vm" "st = JNI_EDETACHED" "r \<noteq> 0"
    | (attached) vm where "g_vm s = Some vm" "st = JNI_EDETACHED" "r = 0"
    | (version) vm where "g_vm s = Some vm" "st = JNI_EVERSION"
    | (bound) vm where "g_vm s = Some vm" "st \<noteq> JNI_EDETACHED" "st \<noteq> JNI_EVERSION"
    by (cases "g_vm s") auto
  then show ?thesis
  proof cases
    case no_vm
    then show ?thesis
      by (simp add: inputStreamClose_def prog_defs gone)
  next
    case failed
    show ?thesis
      using failed(3)
      by (simp add: inputStreamClose_def vm_GetEnv_def vm_AttachCurrentThread_def prog_defs
          gone failed(1) ge [unfolded failed(2)] at)
  next
    case attached
    show ?thesis
      by (simp add: gone release_dangling
          close_attached [OF attached(1) ge [unfolded attached(2)] at [unfolded attached(3)]])
  next
    case version
    show ?thesis
      by (simp add: inputStreamClose_def vm_GetEnv_def prog_defs JNI_status_distinct
          gone version(1) ge [unfolded version(2)])
  next
    case bound
    show ?thesis
      by (simp add: gone release_dangling close_bound [OF bound(1) ge bound(2) bound(3)])
  qed
qed

text \<open>
  C7, as the code has it. A call of \<open>inputStreamClose\<close> on a live context that returns
  has called \<open>free\<close> exactly once, on that context, and \<open>DeleteGlobalRef\<close> at most once,
  and the context is no longer in the store. Nothing guards a second call: the pointer
  is passed by value and is not null, so any further \<open>inputStreamClose\<close> on it reads the
  freed struct. Calling close at most once per context is the caller's obligation.
\<close>

theorem inputStreamClose_frees_once:
  assumes live: "heap s a = Some c"
    and ok: "fst (inputStreamClose rt (Some a) s) = Inr ()"
  shows "filter is_Free (events_of (inputStreamClose rt (Some a)) s) = [Free (Some a)]
       \<and> length (filter is_DeleteGlobalRef (events_of (inputStreamClose rt (Some a)) s)) \<le> 1
       \<and> heap (snd (inputStreamClose rt (Some a) s)) a = None
       \<and> fst (inputStreamClose rt' (Some a) (snd (inputStreamClose rt (Some a) s)))
           = Inl UseAfterFree"
proof -
  obtain st e where ge: "on_GetEnv rt (trace s @ [Log INFO msg_113]) = (st, e)"
    by (cases "on_GetEnv rt (trace s @ [Log INFO msg_113])")
  obtain r e' where at: "on_AttachCurrentThread rt
      (trace s @ [Log INFO msg_113, GetEnv JNI_EDETACHED e, Log INFO msg_137]) = (r, e')"
    by (cases "on_AttachCurrentThread rt
      (trace s @ [Log INFO msg_113, GetEnv JNI_EDETACHED e, Log INFO msg_137])")
  consider (no_vm) "g_vm s = NULL"
    | (failed) vm where "g_vm s = Some vm" "st = JNI_EDETACHED" "r \<noteq> 0"
    | (attached) vm where "g_vm s = Some vm" "st = JNI_EDETACHED" "r = 0"
    | (version) vm where "g_vm s = Some vm" "st = JNI_EVERSION"
    | (bound) vm where "g_vm s = Some vm" "st \<noteq> JNI_EDETACHED" "st \<noteq> JNI_EVERSION"
    by (cases "g_vm s") auto
  then have first:
    "filter is_Free (events_of (inputStreamClose rt (Some a)) s) = [Free (Some a)]
     \<and> length (filter is_DeleteGlobalRef (events_of (inputStreamClose rt (Some a)) s)) \<le> 1
     \<and> heap (snd (inputStreamClose rt (Some a) s)) a = None"
  proof cases
    case no_vm
    show ?thesis
      by (simp add: events_of_def close_no_vm [OF live no_vm] leak_warning_simps)
  next
    case failed
    show ?thesis
      by (simp add: events_of_def leak_warning_simps
          close_attach_failed [OF live failed(1) ge [unfolded failed(2)] at failed(3)])
  next
    case attached
    show ?thesis
      using ok
      by (simp add: events_of_def live release_live
          close_attached [OF attached(1) ge [unfolded attached(2)] at [unfolded attached(3)]]
          split: if_splits)
  next
    case version
    show ?thesis
      by (simp add: events_of_def leak_warning_simps
          close_version [OF live version(1) ge [unfolded version(2)]])
  next
    case bound
    show ?thesis
      using ok
      by (simp add: events_of_def live close_bound [OF bound(1) ge bound(2) bound(3)]
          release_live split: if_splits)
  qed
  then have "heap (snd (inputStreamClose rt (Some a) s)) a = None"
    by simp
  then have "fst (inputStreamClose rt' (Some a) (snd (inputStreamClose rt (Some a) s)))
      = Inl UseAfterFree"
    by (rule close_dangling)
  with first show ?thesis
    by simp
qed

theorem inputStreamClose_frees_once_witness:
  "heap example_state 0 = Some example_context
   \<and> fst (inputStreamClose example_runtime (Some 0) example_state) = Inr ()
   \<and> filter is_Free (events_of (inputStreamClose example_runtime (Some 0)) example_state)
       = [Free (Some 0)]
   \<and> length (filter is_DeleteGlobalRef
        (events_of (inputStreamClose example_runtime (Some 0)) example_state)) \<le> 1
   \<and> heap (snd (inputStreamClose example_runtime (Some 0) example_state)) 0 = None
   \<and> fst (inputStreamClose example_runtime (Some 0)
             (snd (inputStreamClose example_runtime (Some 0) example_state)))
       = Inl UseAfterFree"
proof -
  have ok: "fst (inputStreamClose example_runtime (Some 0) example_state) = Inr ()"
    by (simp add: example_close)
  show ?thesis
    using example_live ok
      inputStreamClose_frees_once [OF example_live ok, of example_runtime]
    by simp
qed

text \<open>
  C7, as the specification has it, fails: after a first close that returned normally and
  freed the context, the second close on the same pointer does not return normally.
\<close>

theorem inputStreamClose_twice_counterexample:
  "fst (inputStreamClose example_runtime (Some 0) example_state) = Inr ()
   \<and> Free (Some 0) \<in> set (trace (snd (inputStreamClose example_runtime (Some 0) example_state)))
   \<and> fst (inputStreamClose example_runtime (Some 0)
             (snd (inputStreamClose example_runtime (Some 0) example_state)))
       = Inl UseAfterFree"
proof -
  have "heap (snd (inputStreamClose example_runtime (Some 0) example_state)) 0 = None"
    by (simp add: example_close)
  then show ?thesis
    by (simp add: close_dangling) (simp add: example_close)
qed

subsection \<open>Faults of the runtime during \<open>inputStreamRead\<close>\<close>

text \<open>
  Once the transient array exists, no fault survives the call: if the stream's \<open>read\<close>
  raised, or returned the end-of-stream value \<open>-1\<close>, the call returns 0 and no exception
  is pending afterwards.
\<close>

lemma inputStreamRead_stream_fault_or_sentinel:
  assumes live: "heap s a = Some c" and e: "env c = Some j" and nz: "read_size \<noteq> 0"
    and arr: "on_NewByteArray rt (trace s) (ucast read_size) = (Some b, t0)"
    and rd: "on_CallIntMethod rt (trace s @ [NewByteArray (ucast read_size) (Some b)])
               (input_stream c) (mid_read c) [L (Some b), I 0, I (ucast read_size)] = (r, threw)"
    and bad: "threw \<or> r = - 1"
  shows "fst (inputStreamRead rt (Some a) read_size s) = Inr 0
       \<and> \<not> pending (snd (inputStreamRead rt (Some a) read_size s))
       \<and> heap (snd (inputStreamRead rt (Some a) read_size s)) = heap s"
proof (cases "pending s \<or> t0 \<or> threw")
  case True
  then show ?thesis
    using live e nz
    by (simp add: inputStreamRead_def prog_defs arr rd)
next
  case False
  with bad have r: "r = - 1"
    by simp
  have "\<not> 0 <s (- 1 :: jint)"
    by (simp add: word_sless_alt)
  with False show ?thesis
    using live e nz
    by (simp add: inputStreamRead_def prog_defs arr rd r fun_upd_idem)
qed

text \<open>
  The allocation failure is different: the function logs and returns 0 at once, without
  \<open>ExceptionCheck\<close> or \<open>ExceptionClear\<close>, so whatever \<open>NewByteArray\<close> raised stays pending.
\<close>

lemma inputStreamRead_allocation_failure:
  assumes live: "heap s a = Some c" and e: "env c = Some j" and nz: "read_size \<noteq> 0"
    and arr: "on_NewByteArray rt (trace s) (ucast read_size) = (NULL, t0)"
  shows "inputStreamRead rt (Some a) read_size s =
     (Inr 0, s\<lparr>pending := pending s \<or> t0,
                trace := trace s @ [NewByteArray (ucast read_size) NULL, Log WARN msg_57]\<rparr>)"
  using live e nz
  by (simp add: inputStreamRead_def prog_defs arr)

text \<open>
  C2 at the failing input: \<open>NewByteArray\<close> returns null with an \<open>OutOfMemoryError\<close>
  raised. The call returns 0 and the exception is still pending when it returns;
  \<open>ExceptionClear\<close> was never called.
\<close>

theorem inputStreamRead_allocation_failure_leaves_fault:
  "inputStreamRead (example_runtime\<lparr>on_NewByteArray := \<lambda>h len. (NULL, True)\<rparr>) (Some 0) 16
     example_state =
     (Inr 0, example_state\<lparr>pending := True,
                trace := [NewByteArray 16 NULL, Log WARN msg_57]\<rparr>)"
proof -
  have e: "env example_context = Some 1" and t: "trace example_state = []"
    by (simp_all add: example_context_def example_state_def)
  have nz: "(16 :: size_t) \<noteq> 0"
    by simp
  have arr: "on_NewByteArray (example_runtime\<lparr>on_NewByteArray := \<lambda>h len. (NULL, True)\<rparr>)
      (trace example_state) (ucast (16 :: size_t)) = (NULL, True)"
    by simp
  show ?thesis
    by (simp add: inputStreamRead_allocation_failure [OF example_live e nz arr] t)
qed

subsection \<open>The initializers\<close>

text \<open>
  C6. In the stream-backed initializer the loader-context pointer is the result of
  \<open>malloc\<close>. When it is null the function logs a warning and returns null at once: the
  trace holds the failed \<open>malloc\<close> and the warning only, so the eof probe is not run
  (there is no \<open>CallIntMethod\<close>), and the result is not a fault, so nothing was
  dereferenced. The branch at lines 311 to 313 tests \<open>loader.eof\<close>, which was assigned
  three lines earlier, and is never taken.
\<close>

theorem initContextFromInputStream_null_context:
  assumes "g_inputStreamClass s \<noteq> NULL" and "g_midInputStreamAvailable s \<noteq> NULL"
    and "g_midInputStreamRead s \<noteq> NULL"
    and "on_malloc rt (trace s) = None"
  shows "Java_com_whispercpp_whisper_WhisperLib_initContextFromInputStream rt e stream s =
     (Inr NULL, s\<lparr>trace := trace s @ [Malloc NULL, Log WARN msg_275]\<rparr>)"
  by (simp add: Java_com_whispercpp_whisper_WhisperLib_initContextFromInputStream_def
      prog_defs assms)

theorem initContextFromInputStream_null_context_witness:
  "g_inputStreamClass example_state \<noteq> NULL \<and> g_midInputStreamAvailable example_state \<noteq> NULL
   \<and> g_midInputStreamRead example_state \<noteq> NULL
   \<and> on_malloc (example_runtime\<lparr>on_malloc := \<lambda>h. None\<rparr>) (trace example_state) = None
   \<and> Java_com_whispercpp_whisper_WhisperLib_initContextFromInputStream
        (example_runtime\<lparr>on_malloc := \<lambda>h. None\<rparr>) (Some 1) (Some 8) example_state =
      (Inr NULL, example_state\<lparr>trace := [Malloc NULL, Log WARN msg_275]\<rparr>)"
proof -
  have g: "g_inputStreamClass example_state \<noteq> NULL"
    "g_midInputStreamAvailable example_state \<noteq> NULL"
    "g_midInputStreamRead example_state \<noteq> NULL"
    by (simp_all add: example_state_def)
  have m: "on_malloc (example_runtime\<lparr>on_malloc := \<lambda>h. None\<rparr>) (trace example_state) = None"
    by simp
  have t: "trace example_state = []"
    by (simp add: example_state_def)
  show ?thesis
    using g m initContextFromInputStream_null_context [OF g m, of "Some 1" "Some 8"]
    by (simp add: t)
qed

text \<open>
  The one place outside \<open>inputStreamClose\<close> where a context struct is freed: the
  initializer gives the fresh struct back when \<open>NewGlobalRef\<close> fails, before any loader
  refers to it.
\<close>

lemma initContextFromInputStream_global_ref_failure:
  assumes "g_inputStreamClass s \<noteq> NULL" and "g_midInputStreamAvailable s \<noteq> NULL"
    and "g_midInputStreamRead s \<noteq> NULL"
    and "on_malloc rt (trace s) = Some c0" and "e = Some j"
    and "on_NewGlobalRef rt (trace s @ [Malloc (Some (next_block s))]) stream = NULL"
  shows "Java_com_whispercpp_whisper_WhisperLib_initContextFromInputStream rt e stream s =
     (Inr NULL, s\<lparr>heap := (heap s)(next_block s := None), next_block := Suc (next_block s),
        trace := trace s @ [Malloc (Some (next_block s)), NewGlobalRef stream NULL,
                            Log WARN msg_287, Free (Some (next_block s))]\<rparr>)"
  by (simp add: Java_com_whispercpp_whisper_WhisperLib_initContextFromInputStream_def
      prog_defs assms)

text \<open>
  When allocation and \<open>NewGlobalRef\<close> succeed, the probe runs, on the fresh live context:
  the engine's initializer is entered with the context filled in and with the call of
  \<open>available()\<close> already in the trace. The warning of line 312 is on no path.
\<close>

lemma initContextFromInputStream_reaches_engine:
  assumes "g_inputStreamClass s = Some k" and "g_midInputStreamAvailable s = Some mav"
    and "g_midInputStreamRead s = Some mrd"
    and "on_malloc rt (trace s) = Some c0" and "e = Some j"
    and "on_NewGlobalRef rt (trace s @ [Malloc (Some (next_block s))]) stream = Some g"
    and "on_CallIntMethod rt
           (trace s @ [Malloc (Some (next_block s)), NewGlobalRef stream (Some g),
                       Log INFO msg_295, Log INFO msg_309])
           (Some g) (Some mav) [] = (r, threw)"
  shows "Java_com_whispercpp_whisper_WhisperLib_initContextFromInputStream rt e stream s =
     seq (on_whisper_init_with_params rt
            \<lparr>l_context = Some (next_block s), l_read = Some fn_inputStreamRead,
             l_eof = Some fn_inputStreamEof, l_close = Some fn_inputStreamClose\<rparr>)
       (\<lambda>context.
          seq (LOGI msg_317) (\<lambda>_.
          if context = NULL then seq (block [LOGW msg_320, LOGW msg_328]) (\<lambda>_. ret NULL)
          else ret context))
       (s\<lparr>next_block := Suc (next_block s),
          heap := (heap s)(next_block s \<mapsto>
                 \<lparr>offset = 0, env = Some j, input_stream = Some g,
                  mid_available = Some mav, mid_read = Some mrd\<rparr>),
          pending := pending s \<or> threw,
          trace := trace s @
            [Malloc (Some (next_block s)), NewGlobalRef stream (Some g), Log INFO msg_295,
             Log INFO msg_309, CallIntMethod (Some g) (Some mav) [] r,
             whisper_context_default_params,
             whisper_init_with_params
               \<lparr>l_context = Some (next_block s), l_read = Some fn_inputStreamRead,
                l_eof = Some fn_inputStreamEof, l_close = Some fn_inputStreamClose\<rparr>]\<rparr>)"
  by (simp add: Java_com_whispercpp_whisper_WhisperLib_initContextFromInputStream_def
      call_eof_def inputStreamEof_def zeroed_def prog_defs Let_def assms)

text \<open>
  C8. When \<open>AAssetManager_open\<close> returns null for the path, \<open>whisper_init_from_asset\<close>
  logs the failure and returns null. The trace ends with the failed open and the warning:
  no loader is built, the engine's initializer is not called, and there is no asset
  handle that could be closed.
\<close>

theorem whisper_init_from_asset_open_failure:
  assumes "on_AAssetManager_fromJava rt (trace s @ [Log INFO msg_354]) assetManager = m"
    and "on_AAssetManager_open rt
           (trace s @ [Log INFO msg_354, AAssetManager_fromJava assetManager m]) m asset_path
         = NULL"
  shows "whisper_init_from_asset rt e assetManager asset_path s =
     (Inr NULL, s\<lparr>trace := trace s @
        [Log INFO msg_354, AAssetManager_fromJava assetManager m,
         AAssetManager_open m asset_path NULL, Log WARN msg_358]\<rparr>)"
  by (simp add: whisper_init_from_asset_def prog_defs assms)

theorem whisper_init_from_asset_open_failure_witness:
  "on_AAssetManager_fromJava example_runtime (trace example_state @ [Log INFO msg_354]) (Some 6)
     = Some 50
   \<and> on_AAssetManager_open example_runtime
       (trace example_state @ [Log INFO msg_354, AAssetManager_fromJava (Some 6) (Some 50)])
       (Some 50) ''model.bin'' = NULL
   \<and> whisper_init_from_asset example_runtime (Some 1) (Some 6) ''model.bin'' example_state =
      (Inr NULL, example_state\<lparr>trace :=
         [Log INFO msg_354, AAssetManager_fromJava (Some 6) (Some 50),
          AAssetManager_open (Some 50) ''model.bin'' NULL, Log WARN msg_358]\<rparr>)"
proof -
  have m: "on_AAssetManager_fromJava example_runtime (trace example_state @ [Log INFO msg_354])
      (Some 6) = Some 50"
    by (simp add: example_runtime_def)
  have a: "on_AAssetManager_open example_runtime
       (trace example_state @ [Log INFO msg_354, AAssetManager_fromJava (Some 6) (Some 50)])
       (Some 50) ''model.bin'' = NULL"
    by (simp add: example_runtime_def)
  have t: "trace example_state = []"
    by (simp add: example_state_def)
  show ?thesis
    using m a whisper_init_from_asset_open_failure [OF m a, of "Some 1"]
    by (simp add: t)
qed

subsection \<open>\<open>fullTranscribe\<close>\<close>

lemmas transcribe_defs = Java_com_whispercpp_whisper_WhisperLib_fullTranscribe_def
  jni_GetFloatArrayElements_def jni_GetArrayLength_def jni_ReleaseFloatArrayElements_def
  engine_whisper_full_def engine_whisper_get_timings_def log_timings_def

lemma fullTranscribe_aborts:
  assumes "e = Some j"
    and "on_GetFloatArrayElements rt (trace s) audio_data = arr"
    and "on_GetArrayLength rt (trace s @ [GetFloatArrayElements audio_data arr]) audio_data = n"
    and "context = NULL \<or> arr = NULL"
  shows "Java_com_whispercpp_whisper_WhisperLib_fullTranscribe rt e context num_threads audio_data s
     = (Inr (), s\<lparr>trace := trace s @
          [GetFloatArrayElements audio_data arr, GetArrayLength audio_data n, Log INFO msg_432] @
          (if context = NULL
           then Log ERROR msg_435 #
                (if arr \<noteq> NULL then [ReleaseFloatArrayElements audio_data arr JNI_ABORT] else [])
           else [Log ERROR msg_443])\<rparr>)"
  using assms(4)
  by (auto simp: transcribe_defs prog_defs Let_def assms(1,2,3))

lemma fullTranscribe_runs:
  assumes "e = Some j" and "context = Some w"
    and "on_GetFloatArrayElements rt (trace s) audio_data = Some b"
    and "on_GetArrayLength rt (trace s @ [GetFloatArrayElements audio_data (Some b)]) audio_data = n"
  shows "\<exists>report.
     Java_com_whispercpp_whisper_WhisperLib_fullTranscribe rt e context num_threads audio_data s
       = (Inr (), s\<lparr>trace := trace s @
            [GetFloatArrayElements audio_data (Some b), GetArrayLength audio_data n,
             Log INFO msg_432, whisper_reset_timings context, Log INFO msg_449, clock_gettime]
            @ report @ [ReleaseFloatArrayElements audio_data (Some b) JNI_ABORT]\<rparr>)
     \<and> filter is_ReleaseFloatArrayElements report = []"
proof -
  let ?params = "(on_whisper_full_default_params rt)
           \<lparr>print_realtime := False, print_progress := False, print_timestamps := True,
            print_special := False, translate := False, language := ''en'',
            n_threads := num_threads, offset_ms := 0, no_context := True,
            single_segment := False\<rparr>"
  let ?h1 = "trace s @
            [GetFloatArrayElements audio_data (Some b), GetArrayLength audio_data n,
             Log INFO msg_432, whisper_reset_timings context, Log INFO msg_449, clock_gettime]"
  obtain res where res: "on_whisper_full rt ?h1 context ?params (Some b) n = res"
    by simp
  let ?h2 = "?h1 @ [whisper_full context ?params (Some b) n res, clock_gettime, Log INFO msg_460,
              Log (if res = 0 then INFO else ERROR) (if res = 0 then msg_464 else msg_478)]"
  obtain t where t: "on_whisper_get_timings rt ?h2 context = t"
    by simp
  show ?thesis
  proof (cases "res = 0")
    case True
    show ?thesis
    proof (cases t)
      case None
      show ?thesis
        apply (rule exI [of _ "[whisper_full context ?params (Some b) n res, clock_gettime, Log INFO msg_460,
              Log INFO msg_464, whisper_get_timings context NULL, Log WARN msg_475]"])
        using res t True None
        by (simp add: transcribe_defs prog_defs Let_def assms)
    next
      case (Some p)
      show ?thesis
        apply (rule exI [of _ "[whisper_full context ?params (Some b) n res, clock_gettime, Log INFO msg_460,
              Log INFO msg_464, whisper_get_timings context (Some p), Log INFO msg_467,
              Log INFO msg_sample, Log INFO msg_encode, Log INFO msg_decode, Log INFO msg_batchd,
              Log INFO msg_prompt, Free (Some p)]"])
        using res t True Some
        by (simp add: transcribe_defs prog_defs Let_def assms)
    qed
  next
    case False
    show ?thesis
    proof (cases t)
      case None
      show ?thesis
        apply (rule exI [of _ "[whisper_full context ?params (Some b) n res, clock_gettime, Log INFO msg_460,
              Log ERROR msg_478, whisper_get_timings context NULL]"])
        using res t False None
        by (simp add: transcribe_defs prog_defs Let_def assms)
    next
      case (Some p)
      show ?thesis
        apply (rule exI [of _ "[whisper_full context ?params (Some b) n res, clock_gettime, Log INFO msg_460,
              Log ERROR msg_478, whisper_get_timings context (Some p), Log INFO msg_481,
              Log INFO msg_sample, Log INFO msg_encode, Log INFO msg_decode, Log INFO msg_batchd,
              Log INFO msg_prompt, Free (Some p)]"])
        using res t False Some
        by (simp add: transcribe_defs prog_defs Let_def assms)
    qed
  qed
qed

text \<open>
  C9. \<open>fullTranscribe\<close> always returns. With a null context or a failed
  \<open>GetFloatArrayElements\<close> it never calls \<open>whisper_full\<close>. Whenever the sample array was
  acquired it is released exactly once, with mode \<open>JNI_ABORT\<close> (nothing is copied back),
  and that release is the last thing the function does; when it was not acquired nothing
  is released.
\<close>

theorem fullTranscribe_abort_and_release:
  assumes env: "e \<noteq> NULL"
    and arr: "on_GetFloatArrayElements rt (trace s) audio_data = arr"
  shows "fst (Java_com_whispercpp_whisper_WhisperLib_fullTranscribe rt e context num_threads
                audio_data s) = Inr ()
       \<and> (context = NULL \<or> arr = NULL \<longrightarrow>
            filter is_whisper_full
              (events_of (Java_com_whispercpp_whisper_WhisperLib_fullTranscribe rt e context
                            num_threads audio_data) s) = [])
       \<and> filter is_ReleaseFloatArrayElements
            (events_of (Java_com_whispercpp_whisper_WhisperLib_fullTranscribe rt e context
                          num_threads audio_data) s)
           = (if arr = NULL then [] else [ReleaseFloatArrayElements audio_data arr JNI_ABORT])
       \<and> (arr \<noteq> NULL \<longrightarrow>
            last (events_of (Java_com_whispercpp_whisper_WhisperLib_fullTranscribe rt e context
                               num_threads audio_data) s)
              = ReleaseFloatArrayElements audio_data arr JNI_ABORT)"
proof -
  obtain j where j: "e = Some j"
    using env by auto
  obtain n where n: "on_GetArrayLength rt (trace s @ [GetFloatArrayElements audio_data arr])
      audio_data = n"
    by simp
  show ?thesis
  proof (cases "context = NULL \<or> arr = NULL")
    case True
    show ?thesis
      using True
      unfolding events_of_def fullTranscribe_aborts [OF j arr n True]
      by auto
  next
    case False
    then obtain w b where w: "context = Some w" and b: "arr = Some b"
      by auto
    obtain report where
      run: "Java_com_whispercpp_whisper_WhisperLib_fullTranscribe rt e context num_threads
              audio_data s
        = (Inr (), s\<lparr>trace := trace s @
            [GetFloatArrayElements audio_data (Some b), GetArrayLength audio_data n,
             Log INFO msg_432, whisper_reset_timings context, Log INFO msg_449, clock_gettime]
            @ report @ [ReleaseFloatArrayElements audio_data (Some b) JNI_ABORT]\<rparr>)"
      and quiet: "filter is_ReleaseFloatArrayElements report = []"
      using fullTranscribe_runs [OF j w arr [unfolded b] n [unfolded b]] by blast
    show ?thesis
      unfolding events_of_def run
      by (simp add: quiet b w)
  qed
qed

theorem fullTranscribe_abort_and_release_witness:
  "Some 1 \<noteq> NULL
   \<and> on_GetFloatArrayElements example_runtime (trace example_state) (Some 11) = Some 40
   \<and> fst (Java_com_whispercpp_whisper_WhisperLib_fullTranscribe example_runtime (Some 1) NULL 4
             (Some 11) example_state) = Inr ()
   \<and> filter is_whisper_full
        (events_of (Java_com_whispercpp_whisper_WhisperLib_fullTranscribe example_runtime
                      (Some 1) NULL 4 (Some 11)) example_state) = []
   \<and> filter is_ReleaseFloatArrayElements
        (events_of (Java_com_whispercpp_whisper_WhisperLib_fullTranscribe example_runtime
                      (Some 1) NULL 4 (Some 11)) example_state)
       = [ReleaseFloatArrayElements (Some 11) (Some 40) JNI_ABORT]
   \<and> last (events_of (Java_com_whispercpp_whisper_WhisperLib_fullTranscribe example_runtime
                        (Some 1) NULL 4 (Some 11)) example_state)
       = ReleaseFloatArrayElements (Some 11) (Some 40) JNI_ABORT
   \<and> filter is_ReleaseFloatArrayElements
        (events_of (Java_com_whispercpp_whisper_WhisperLib_fullTranscribe example_runtime
                      (Some 1) (Some 99) 4 (Some 11)) example_state)
       = [ReleaseFloatArrayElements (Some 11) (Some 40) JNI_ABORT]"
proof -
  have env: "Some (1 :: nat) \<noteq> NULL"
    by simp
  have arr: "on_GetFloatArrayElements example_runtime (trace example_state) (Some 11) = Some 40"
    by (simp add: example_runtime_def)
  show ?thesis
    using arr
      fullTranscribe_abort_and_release [OF env arr, of NULL 4]
      fullTranscribe_abort_and_release [OF env arr, of "Some 99" 4]
    by simp
qed

end
